theory Spec2Isabelle
  imports Main "HOL-Library.Char_ord" "HOL-Library.List_Lexorder"
begin

section \<open>The session router of the Streamable HTTP server\<close>

text \<open>
  The server keeps one process-wide object \<open>transports\<close> (a plain object literal used as
  a dictionary from session id to transport) and installs three routes on \<open>/mcp\<close>: a POST
  handler, and one function \<open>handleSessionRequest\<close> for both GET and DELETE.  Everything
  else (JSON-RPC framing, the transport, the protocol server) is the imported SDK.

  The embedding below follows the handlers statement by statement.  A handler sees the
  request after the middleware ran: the value of the \<open>mcp-session-id\<close> header
  (\<open>string | undefined\<close>) and the parsed body.  The SDK appears in three places only:
  \<^item> \<open>isInitializeRequest\<close> is a parameter of the POST handler;
  \<^item> \<open>transport.handleRequest\<close> is an outcome of a handler (which transport was called,
    and whether the body was passed);
  \<^item> the two callbacks the code hands to the transport (\<open>onsessioninitialized\<close>,
    \<open>onclose\<close>) are functions on the server state, invoked by events of their own.
\<close>

subsection \<open>Values\<close>

datatype json = JNull | JString string | JNumber int | JObject "(string \<times> json) list"

datatype payload = JsonBody json | TextBody string

record response =
  status :: nat
  payload :: payload

record 'b request =
  mcp_session_id :: "string option"
  body :: 'b

datatype verb = POST | GET | DELETE

text \<open>
  What the expression \<open>transports[sessionId]\<close> can evaluate to: \<open>undefined\<close>, a
  transport (objects have identity: transports are numbered in the order of their
  construction), or a member that the object literal inherits from \<open>Object.prototype\<close>.
\<close>

datatype jsval = Undefined | Transport nat | Inherited string

datatype js_error = TypeError

text \<open>
  How a handler ends: it awaits \<open>handleRequest\<close> of a transport (with the body as third
  argument, or without), it writes a response of its own, or it throws (the promise of the
  async handler rejects and the handler writes no response).
\<close>

datatype 'b outcome =
    HandleRequest nat "'b option"
  | Respond response
  | Threw js_error

subsection \<open>The state\<close>

text \<open>
  \<open>transports\<close> holds the own properties of the dictionary object.  \<open>sessionId\<close>
  is the field \<open>transport.sessionId\<close> of every transport, which the SDK sets and the close
  callback reads.  \<open>servers\<close> lists the tool names registered on the protocol server that
  was built together with each transport; transport \<open>t\<close> exists iff
  \<open>t < length servers\<close>.
\<close>

record server =
  transports :: "string \<rightharpoonup> nat"
  sessionId :: "nat \<rightharpoonup> string"
  servers :: "string list list"

definition init_server :: server where
  "init_server = \<lparr>transports = Map.empty, sessionId = Map.empty, servers = []\<rparr>"

subsection \<open>Property access and truthiness\<close>

text \<open>
  \<open>transports\<close> is created by \<open>({})\<close>, so its prototype is \<open>Object.prototype\<close> and a
  property read that finds no own property continues there.  These are the property names
  of \<open>Object.prototype\<close>; each of them is a function or an object, hence truthy, and none
  has a member \<open>handleRequest\<close>.
\<close>

definition object_prototype_keys :: "string list" where
  "object_prototype_keys =
     [''constructor'', ''__defineGetter__'', ''__defineSetter__'', ''hasOwnProperty'',
      ''__lookupGetter__'', ''__lookupSetter__'', ''isPrototypeOf'',
      ''propertyIsEnumerable'', ''toString'', ''valueOf'', ''__proto__'',
      ''toLocaleString'']"

text \<open>A property key that is \<open>undefined\<close> is converted to the string \<open>undefined\<close>.\<close>

fun property_key :: "string option \<Rightarrow> string" where
  "property_key None = ''undefined''"
| "property_key (Some k) = k"

definition get_property :: "(string \<rightharpoonup> nat) \<Rightarrow> string option \<Rightarrow> jsval" where
  "get_property obj key =
     (case obj (property_key key) of
        Some t \<Rightarrow> Transport t
      | None \<Rightarrow>
          if property_key key \<in> set object_prototype_keys
          then Inherited (property_key key) else Undefined)"

fun truthy :: "jsval \<Rightarrow> bool" where
  "truthy Undefined = False"
| "truthy (Transport t) = True"
| "truthy (Inherited k) = True"

text \<open>Truthiness of a \<open>string | undefined\<close>: the empty string is falsy.\<close>

fun truthy_string :: "string option \<Rightarrow> bool" where
  "truthy_string None = False"
| "truthy_string (Some k) = (k \<noteq> [])"

text \<open>
  The call \<open>transport.handleRequest(req, res, ...)\<close>.  On a transport it is the SDK's
  entry point; on any other value the member is \<open>undefined\<close> and the call throws.
\<close>

fun call_handleRequest :: "jsval \<Rightarrow> 'b option \<Rightarrow> 'b outcome" where
  "call_handleRequest (Transport t) arg = HandleRequest t arg"
| "call_handleRequest (Inherited k) arg = Threw TypeError"
| "call_handleRequest Undefined arg = Threw TypeError"

subsection \<open>The callbacks given to a transport\<close>

text \<open>
  \<open>onsessioninitialized: (sid) => { transports[sid] = transport; }\<close>.  The assignment
  creates or overwrites an own property.  (For the one key \<open>__proto__\<close> an assignment
  would change the prototype instead; the transport only passes ids that its
  \<open>sessionIdGenerator\<close>, \<open>randomUUID\<close>, returned, see \<open>step\<close> below.)
\<close>

definition onsessioninitialized :: "nat \<Rightarrow> string \<Rightarrow> server \<Rightarrow> server" where
  "onsessioninitialized transport sid s =
     s\<lparr>transports := (transports s)(sid \<mapsto> transport)\<rparr>"

text \<open>
  \<open>transport.onclose = () => { if (transport.sessionId) delete transports[transport.sessionId]; }\<close>.
  \<open>delete\<close> removes an own property and nothing else.
\<close>

definition onclose :: "nat \<Rightarrow> server \<Rightarrow> server" where
  "onclose transport s =
     (if truthy_string (sessionId s transport)
      then s\<lparr>transports := (transports s)(property_key (sessionId s transport) := None)\<rparr>
      else s)"

subsection \<open>The handlers\<close>

text \<open>
  \<open>app.post('/mcp', ...)\<close>.  The second branch constructs a transport (with the two
  callbacks above), constructs a protocol server, registers the tool
  \<open>get_current_time\<close> on it and connects the two; then, like the first branch, it hands the
  request to the transport.
\<close>

definition post_mcp :: "('b \<Rightarrow> bool) \<Rightarrow> server \<Rightarrow> 'b request \<Rightarrow> 'b outcome \<times> server" where
  "post_mcp isInitializeRequest s req =
     (let sessionId = mcp_session_id req in
      if truthy_string sessionId \<and> truthy (get_property (transports s) sessionId) then
        (call_handleRequest (get_property (transports s) sessionId) (Some (body req)), s)
      else if \<not> truthy_string sessionId \<and> isInitializeRequest (body req) then
        (let transport = length (servers s);
             s' = s\<lparr>servers := servers s @ [[''get_current_time'']]\<rparr>
         in (call_handleRequest (Transport transport) (Some (body req)), s'))
      else
        (Respond \<lparr>status = 400,
                  payload = JsonBody (JObject
                    [(''jsonrpc'', JString ''2.0''),
                     (''error'', JObject
                        [(''code'', JNumber (- 32000)),
                         (''message'', JString ''Bad Request: No valid session ID provided'')]),
                     (''id'', JNull)])\<rparr>, s))"

text \<open>\<open>handleSessionRequest\<close>, installed for GET and for DELETE.\<close>

definition handleSessionRequest :: "server \<Rightarrow> 'b request \<Rightarrow> 'b outcome \<times> server" where
  "handleSessionRequest s req =
     (let sessionId = mcp_session_id req in
      if \<not> truthy_string sessionId \<or> \<not> truthy (get_property (transports s) sessionId) then
        (Respond \<lparr>status = 400, payload = TextBody ''Invalid or missing session ID''\<rparr>, s)
      else
        (call_handleRequest (get_property (transports s) sessionId) None, s))"

definition app :: "('b \<Rightarrow> bool) \<Rightarrow> verb \<Rightarrow> server \<Rightarrow> 'b request \<Rightarrow> 'b outcome \<times> server" where
  "app isInitializeRequest v s req =
     (case v of
        POST \<Rightarrow> post_mcp isInitializeRequest s req
      | GET \<Rightarrow> handleSessionRequest s req
      | DELETE \<Rightarrow> handleSessionRequest s req)"

subsection \<open>The process as a sequence of events\<close>

text \<open>
  The generator handed to every transport is \<open>randomUUID\<close>; its results are strings of
  hexadecimal digits in the layout 8-4-4-4-12.  Nothing below needs to know which digits.
\<close>

definition uuid_shape :: "char \<Rightarrow> char" where
  "uuid_shape c =
     (if c \<in> set ''0123456789abcdef'' then CHR ''x''
      else if c = CHR ''-'' then CHR ''-'' else CHR ''?'')"

definition is_uuid :: "string \<Rightarrow> bool" where
  "is_uuid sid = (map uuid_shape sid = ''xxxxxxxx-xxxx-xxxx-xxxx-xxxxxxxxxxxx'')"

text \<open>
  Three kinds of events change or read the state: a request reaches one of the routes; the
  SDK, initialising a session on transport \<open>t\<close>, stores the generator's result in
  \<open>t.sessionId\<close> and calls \<open>onsessioninitialized\<close> with it; the SDK closes transport
  \<open>t\<close> and calls \<open>onclose\<close>.  A callback can only be called on a transport that was
  constructed, since the callbacks are created together with it; an event that cannot occur
  has no successor state.
\<close>

datatype 'b event =
    Request verb "'b request"
  | SessionInitialized nat string
  | Closed nat

fun step :: "('b \<Rightarrow> bool) \<Rightarrow> server \<Rightarrow> 'b event \<Rightarrow> server option" where
  "step isInitializeRequest s (Request v req) = Some (snd (app isInitializeRequest v s req))"
| "step isInitializeRequest s (SessionInitialized t sid) =
     (if t < length (servers s) \<and> is_uuid sid
      then Some (onsessioninitialized t sid (s\<lparr>sessionId := (sessionId s)(t \<mapsto> sid)\<rparr>))
      else None)"
| "step isInitializeRequest s (Closed t) =
     (if t < length (servers s) then Some (onclose t s) else None)"

fun run :: "('b \<Rightarrow> bool) \<Rightarrow> server \<Rightarrow> 'b event list \<Rightarrow> server option" where
  "run isInitializeRequest s [] = Some s"
| "run isInitializeRequest s (e # es) =
     (case step isInitializeRequest s e of
        None \<Rightarrow> None
      | Some s' \<Rightarrow> run isInitializeRequest s' es)"

text \<open>
  A request that starts a handshake: a POST whose session id is missing (or empty) and
  whose body the SDK accepts as an initialize request.
\<close>

fun is_handshake :: "('b \<Rightarrow> bool) \<Rightarrow> 'b event \<Rightarrow> bool" where
  "is_handshake isInitializeRequest (Request POST req) =
     (\<not> truthy_string (mcp_session_id req) \<and> isInitializeRequest (body req))"
| "is_handshake isInitializeRequest e = False"

text \<open>All tool registrations made so far, in order, over all protocol servers.\<close>

definition tool_registrations :: "server \<Rightarrow> string list" where
  "tool_registrations s = concat (servers s)"

text \<open>
  The examples instantiate the SDK's predicate with a stand-in that looks at the
  \<open>method\<close> member only.
\<close>

fun method_is_initialize :: "json \<Rightarrow> bool" where
  "method_is_initialize (JObject members) =
     (map_of members ''method'' = Some (JString ''initialize''))"
| "method_is_initialize j = False"

subsection \<open>The current-time tool\<close>






text \<open>
  The body of the tool that the sources contain is the one of \<open>tools_local.py\<close>:
  \<open>return datetime.now(timezone.utc).isoformat()\<close>.  A reading of the clock is a
  \<open>datetime\<close> in UTC; every value of that type satisfies \<open>valid_datetime\<close> (the
  bound on the day is the one for the longest months).
\<close>

record datetime =
  year :: nat
  month :: nat
  day :: nat
  hour :: nat
  minute :: nat
  second :: nat
  microsecond :: nat




text \<open>
  \<open>"%0wd" % n\<close>: the decimal digits of \<open>n\<close>, filled with zeros on the left up to the
  width \<open>w\<close>; a longer number is not cut.
\<close>

definition digit :: "nat \<Rightarrow> char" where
  "digit n = ''0123456789'' ! n"










subsection \<open>Example data\<close>

text \<open>
  A session id as \<open>randomUUID\<close> produces them, two request bodies, the trace of one
  handshake (the request, then the SDK's callback), and the state it leads to.
\<close>

definition example_sid :: string where
  "example_sid = ''123e4567-e89b-42d3-a456-426614174000''"

definition initialize_body :: json where
  "initialize_body =
     JObject [(''jsonrpc'', JString ''2.0''), (''id'', JNumber 1),
              (''method'', JString ''initialize'')]"

definition tools_call_body :: json where
  "tools_call_body =
     JObject [(''jsonrpc'', JString ''2.0''), (''id'', JNumber 2),
              (''method'', JString ''tools/call'')]"

definition example_trace :: "json event list" where
  "example_trace =
     [Request POST \<lparr>mcp_session_id = None, body = initialize_body\<rparr>,
      SessionInitialized 0 example_sid]"

definition example_state :: server where
  "example_state =
     \<lparr>transports = [example_sid \<mapsto> 0], sessionId = [0 \<mapsto> example_sid],
      servers = [[''get_current_time'']]\<rparr>"



section \<open>Basic facts\<close>

subsection \<open>Session ids and property access\<close>

lemma is_uuid_length: "is_uuid sid \<Longrightarrow> length sid = 36"
proof -
  assume "is_uuid sid"
  then have "length (map uuid_shape sid) = length ''xxxxxxxx-xxxx-xxxx-xxxx-xxxxxxxxxxxx''"
    unfolding is_uuid_def by (rule arg_cong)
  then show ?thesis by simp
qed

lemma is_uuid_nonempty: "is_uuid sid \<Longrightarrow> sid \<noteq> []"
  using is_uuid_length by fastforce

lemma inherited_length: "k \<in> set object_prototype_keys \<Longrightarrow> length k \<noteq> 36"
  by (auto simp: object_prototype_keys_def)

lemma is_uuid_not_inherited: "is_uuid sid \<Longrightarrow> sid \<notin> set object_prototype_keys"
  using is_uuid_length inherited_length by blast

lemma get_property_own: "obj k = Some t \<Longrightarrow> get_property obj (Some k) = Transport t"
  by (simp add: get_property_def)

lemma get_property_absent:
  "obj k = None \<Longrightarrow> k \<notin> set object_prototype_keys \<Longrightarrow> get_property obj (Some k) = Undefined"
  by (simp add: get_property_def)

lemma get_property_inherited:
  "obj k = None \<Longrightarrow> k \<in> set object_prototype_keys \<Longrightarrow> get_property obj (Some k) = Inherited k"
  by (simp add: get_property_def)

subsection \<open>One event\<close>

lemma is_handshake_request: "is_handshake f e \<Longrightarrow> \<exists>req. e = Request POST req"
  by (erule is_handshake.elims) auto

lemma request_state:
  "snd (app f v s req) =
     (if is_handshake f (Request v req)
      then s\<lparr>servers := servers s @ [[''get_current_time'']]\<rparr> else s)"
  by (cases v) (simp_all add: app_def post_mcp_def handleSessionRequest_def Let_def)

lemma handshake_outcome:
  "is_handshake f (Request POST req) \<Longrightarrow>
   app f POST s req =
     (HandleRequest (length (servers s)) (Some (body req)),
      s\<lparr>servers := servers s @ [[''get_current_time'']]\<rparr>)"
  by (simp add: app_def post_mcp_def)

lemma step_servers:
  "step f s e = Some s' \<Longrightarrow>
   servers s' = (if is_handshake f e then servers s @ [[''get_current_time'']] else servers s)"
proof (cases e)
  case (Request v req)
  assume "step f s e = Some s'"
  with Request have "s' = snd (app f v s req)" by simp
  then show ?thesis using Request by (simp add: request_state)
next
  case (SessionInitialized t sid)
  assume "step f s e = Some s'"
  with SessionInitialized show ?thesis
    by (auto simp: onsessioninitialized_def split: if_splits)
next
  case (Closed t)
  assume "step f s e = Some s'"
  with Closed show ?thesis
    by (auto simp: onclose_def split: if_splits)
qed

lemma step_transports:
  "step f s e = Some s' \<Longrightarrow>
   transports s' =
     (case e of
        Request v req \<Rightarrow> transports s
      | SessionInitialized t sid \<Rightarrow> (transports s)(sid \<mapsto> t)
      | Closed t \<Rightarrow>
          (if truthy_string (sessionId s t)
           then (transports s)(property_key (sessionId s t) := None) else transports s))"
  by (cases e) (auto simp: request_state onsessioninitialized_def onclose_def split: if_splits)

lemma step_sessionId:
  "step f s e = Some s' \<Longrightarrow>
   sessionId s' =
     (case e of
        Request v req \<Rightarrow> sessionId s
      | SessionInitialized t sid \<Rightarrow> (sessionId s)(t \<mapsto> sid)
      | Closed t \<Rightarrow> sessionId s)"
  by (cases e) (auto simp: request_state onsessioninitialized_def onclose_def split: if_splits)

lemma step_enabled:
  "step f s (SessionInitialized t sid) = Some s' \<Longrightarrow> t < length (servers s) \<and> is_uuid sid"
  by (simp split: if_splits)

subsection \<open>Traces\<close>

lemma run_append:
  "run f s (xs @ ys) = (case run f s xs of None \<Rightarrow> None | Some s' \<Rightarrow> run f s' ys)"
  by (induction xs arbitrary: s) (auto split: option.splits)

lemma run_snoc:
  "run f s (xs @ [e]) = Some s' \<longleftrightarrow> (\<exists>s1. run f s xs = Some s1 \<and> step f s1 e = Some s')"
  by (auto simp: run_append split: option.splits)

lemma run_keys_uuid:
  "run f s evs = Some s' \<Longrightarrow>
   (\<forall>sid t. transports s sid = Some t \<longrightarrow> is_uuid sid) \<Longrightarrow>
   (\<forall>t sid. sessionId s t = Some sid \<longrightarrow> is_uuid sid) \<Longrightarrow>
   (\<forall>sid t. transports s' sid = Some t \<longrightarrow> is_uuid sid) \<and>
   (\<forall>t sid. sessionId s' t = Some sid \<longrightarrow> is_uuid sid)"
proof (induction evs arbitrary: s)
  case Nil
  then show ?case by simp
next
  case (Cons e es)
  from Cons.prems(1) obtain s1 where s1: "step f s e = Some s1" "run f s1 es = Some s'"
    by (auto split: option.splits)
  have a: "\<forall>sid t. transports s1 sid = Some t \<longrightarrow> is_uuid sid"
    using Cons.prems(2) step_transports[OF s1(1)] s1(1)
    by (cases e) (auto split: if_splits)
  have b: "\<forall>t sid. sessionId s1 t = Some sid \<longrightarrow> is_uuid sid"
    using Cons.prems(3) step_sessionId[OF s1(1)] s1(1)
    by (cases e) (auto split: if_splits)
  show ?case by (rule Cons.IH[OF s1(2) a b])
qed

lemma reachable_keys_uuid:
  assumes "run f init_server evs = Some s"
  shows "transports s sid = Some t \<Longrightarrow> is_uuid sid"
    and "sessionId s t = Some sid \<Longrightarrow> is_uuid sid"
  using run_keys_uuid[OF assms] by (auto simp: init_server_def)

lemma run_stays_unknown:
  "run f s1 later = Some s2 \<Longrightarrow> transports s1 sid = None \<Longrightarrow>
   (\<forall>t'. SessionInitialized t' sid \<notin> set later) \<Longrightarrow> transports s2 sid = None"
proof (induction later arbitrary: s1)
  case Nil
  then show ?case by simp
next
  case (Cons e es)
  from Cons.prems(1) obtain s where s: "step f s1 e = Some s" "run f s es = Some s2"
    by (auto split: option.splits)
  have "transports s sid = None"
    using Cons.prems(2,3) step_transports[OF s(1)]
    by (cases e) (auto split: if_splits)
  then show ?case using Cons.IH[OF s(2)] Cons.prems(3) by simp
qed

lemma transport_comes_from_handshake:
  "run f init_server evs = Some s \<Longrightarrow> t < length (servers s) \<Longrightarrow>
   \<exists>pre req post s0. evs = pre @ Request POST req # post \<and>
      is_handshake f (Request POST req) \<and>
      run f init_server pre = Some s0 \<and> t = length (servers s0)"
proof (induction evs arbitrary: s rule: rev_induct)
  case Nil
  then show ?case by (auto simp: init_server_def)
next
  case (snoc e es)
  from snoc.prems(1) obtain s1 where s1: "run f init_server es = Some s1" "step f s1 e = Some s"
    by (auto simp: run_snoc)
  show ?case
  proof (cases "t < length (servers s1)")
    case True
    from snoc.IH[OF s1(1) True] obtain pre req post s0 where
      "es = pre @ Request POST req # post" "is_handshake f (Request POST req)"
      "run f init_server pre = Some s0" "t = length (servers s0)"
      by blast
    then have "es @ [e] = pre @ Request POST req # (post @ [e]) \<and>
        is_handshake f (Request POST req) \<and>
        run f init_server pre = Some s0 \<and> t = length (servers s0)"
      by simp
    then show ?thesis by blast
  next
    case False
    with snoc.prems(2) step_servers[OF s1(2)] have h: "is_handshake f e" "t = length (servers s1)"
      by (auto split: if_splits)
    from h(1) obtain req where "e = Request POST req"
      using is_handshake_request by blast
    with h s1(1) have "es @ [e] = es @ Request POST req # [] \<and>
        is_handshake f (Request POST req) \<and>
        run f init_server es = Some s1 \<and> t = length (servers s1)"
      by simp
    then show ?thesis by blast
  qed
qed

lemma entry_comes_from_callback:
  "run f init_server evs = Some s \<Longrightarrow> transports s sid = Some t \<Longrightarrow>
   \<exists>pre post s1. evs = pre @ SessionInitialized t sid # post \<and>
      run f init_server pre = Some s1 \<and> t < length (servers s1) \<and> is_uuid sid"
proof (induction evs arbitrary: s rule: rev_induct)
  case Nil
  then show ?case by (auto simp: init_server_def)
next
  case (snoc e es)
  from snoc.prems(1) obtain s1 where s1: "run f init_server es = Some s1" "step f s1 e = Some s"
    by (auto simp: run_snoc)
  show ?case
  proof (cases "transports s1 sid = Some t")
    case True
    from snoc.IH[OF s1(1) True] obtain pre post s0 where
      "es = pre @ SessionInitialized t sid # post" "run f init_server pre = Some s0"
      "t < length (servers s0)" "is_uuid sid"
      by blast
    then have "es @ [e] = pre @ SessionInitialized t sid # (post @ [e]) \<and>
        run f init_server pre = Some s0 \<and> t < length (servers s0) \<and> is_uuid sid"
      by simp
    then show ?thesis by blast
  next
    case False
    with snoc.prems(2) step_transports[OF s1(2)] have "e = SessionInitialized t sid"
      by (cases e) (auto split: if_splits)
    with s1 step_enabled have "es @ [e] = es @ SessionInitialized t sid # [] \<and>
        run f init_server es = Some s1 \<and> t < length (servers s1) \<and> is_uuid sid"
      by blast
    then show ?thesis by blast
  qed
qed

subsection \<open>Requests with a known and with an unknown session id\<close>

lemma known_session_post:
  "transports s sid = Some t \<Longrightarrow> sid \<noteq> [] \<Longrightarrow> mcp_session_id req = Some sid \<Longrightarrow>
   post_mcp f s req = (HandleRequest t (Some (body req)), s)"
  by (simp add: post_mcp_def get_property_own)

lemma known_session_get:
  "transports s sid = Some t \<Longrightarrow> sid \<noteq> [] \<Longrightarrow> mcp_session_id req = Some sid \<Longrightarrow>
   handleSessionRequest s req = (HandleRequest t None, s)"
  by (simp add: handleSessionRequest_def get_property_own)

lemma unknown_session_post:
  "transports s sid = None \<Longrightarrow> sid \<noteq> [] \<Longrightarrow> sid \<notin> set object_prototype_keys \<Longrightarrow>
   mcp_session_id req = Some sid \<Longrightarrow>
   post_mcp f s req =
     (Respond \<lparr>status = 400,
               payload = JsonBody (JObject
                 [(''jsonrpc'', JString ''2.0''),
                  (''error'', JObject
                     [(''code'', JNumber (- 32000)),
                      (''message'', JString ''Bad Request: No valid session ID provided'')]),
                  (''id'', JNull)])\<rparr>, s)"
  by (simp add: post_mcp_def get_property_absent)

lemma unknown_session_get:
  "transports s sid = None \<Longrightarrow> sid \<notin> set object_prototype_keys \<Longrightarrow>
   mcp_session_id req = Some sid \<Longrightarrow>
   handleSessionRequest s req =
     (Respond \<lparr>status = 400, payload = TextBody ''Invalid or missing session ID''\<rparr>, s)"
  by (simp add: handleSessionRequest_def get_property_absent)

subsection \<open>The example\<close>

lemma example_sid_uuid: "is_uuid example_sid"
  by (simp add: example_sid_def is_uuid_def uuid_shape_def)

lemma example_run: "run method_is_initialize init_server example_trace = Some example_state"
  using example_sid_uuid
  by (simp add: example_trace_def example_state_def init_server_def app_def post_mcp_def
      onsessioninitialized_def initialize_body_def)

lemma example_entry: "transports example_state example_sid = Some 0"
  by (simp add: example_state_def)

subsection \<open>Formatting a reading of the clock\<close>

lemma digits_code:
  "\<forall>n \<in> set [0, 1, 2, 3, 4, 5, 6, 7, 8, 9]. of_char (digit n) = (48 + n :: nat)"
  by (simp add: digit_def)

lemma below_ten: "n < 10 \<Longrightarrow> n \<in> set [0, 1, 2, 3, 4, 5, 6, 7, 8, 9 :: nat]"
  by (simp, arith)

lemma digit_code: "n < 10 \<Longrightarrow> of_char (digit n) = (48 + n :: nat)"
  using digits_code below_ten by blast

lemma digit_less_iff: "a < 10 \<Longrightarrow> b < 10 \<Longrightarrow> digit a < digit b \<longleftrightarrow> a < b"
  by (simp add: less_char_def digit_code)

lemma digit_eq_iff: "a < 10 \<Longrightarrow> b < 10 \<Longrightarrow> digit a = digit b \<longleftrightarrow> a = b"
  by (metis digit_less_iff less_irrefl nat_neq_iff)























section \<open>Routing of requests\<close>

text \<open>
  C1.  In every state the process can reach, a POST, GET or DELETE request whose
  \<open>mcp-session-id\<close> header is a key of the registry is handed to exactly the transport
  stored under that key (POST passes the body along, GET and DELETE do not), and the
  handler leaves the state as it found it.  What the transport does with the request
  afterwards is the SDK's; where it calls back into this code, that is an event of its own.
\<close>

theorem known_session_is_dispatched:
  assumes "run isInitializeRequest init_server evs = Some s"
    and "transports s sid = Some t"
    and "mcp_session_id req = Some sid"
  shows "app isInitializeRequest POST s req = (HandleRequest t (Some (body req)), s) \<and>
         app isInitializeRequest GET s req = (HandleRequest t None, s) \<and>
         app isInitializeRequest DELETE s req = (HandleRequest t None, s)"
proof -
  have "sid \<noteq> []"
    using reachable_keys_uuid(1)[OF assms(1,2)] by (rule is_uuid_nonempty)
  then show ?thesis
    using assms(2,3) by (simp add: app_def known_session_post known_session_get)
qed

text \<open>
  The handshake of the example, followed by a tool call, a GET and a DELETE on the session.
\<close>

theorem known_session_is_dispatched_witness:
  "run method_is_initialize init_server example_trace = Some example_state \<and>
   transports example_state example_sid = Some 0 \<and>
   app method_is_initialize POST example_state
       \<lparr>mcp_session_id = Some example_sid, body = tools_call_body\<rparr> =
     (HandleRequest 0 (Some tools_call_body), example_state) \<and>
   app method_is_initialize GET example_state
       \<lparr>mcp_session_id = Some example_sid, body = tools_call_body\<rparr> =
     (HandleRequest 0 None, example_state) \<and>
   app method_is_initialize DELETE example_state
       \<lparr>mcp_session_id = Some example_sid, body = tools_call_body\<rparr> =
     (HandleRequest 0 None, example_state)"
  using example_run example_entry
    known_session_is_dispatched[OF example_run example_entry,
      of "\<lparr>mcp_session_id = Some example_sid, body = tools_call_body\<rparr>"]
  by simp

text \<open>
  C2.  A POST request without a session id (the header is missing, or empty) whose body is
  not an initialize request is answered with status 400 and the fixed JSON-RPC error; the
  state stays as it was.
\<close>

theorem missing_session_is_rejected:
  assumes "mcp_session_id req = None \<or> mcp_session_id req = Some []"
    and "\<not> isInitializeRequest (body req)"
  shows "app isInitializeRequest POST s req =
     (Respond \<lparr>status = 400,
               payload = JsonBody (JObject
                 [(''jsonrpc'', JString ''2.0''),
                  (''error'', JObject
                     [(''code'', JNumber (- 32000)),
                      (''message'', JString ''Bad Request: No valid session ID provided'')]),
                  (''id'', JNull)])\<rparr>, s)"
  using assms by (auto simp: app_def post_mcp_def)

text \<open>
  A tool call without a session id.
\<close>

theorem missing_session_is_rejected_witness:
  "\<not> method_is_initialize tools_call_body \<and>
   app method_is_initialize POST example_state
       \<lparr>mcp_session_id = None, body = tools_call_body\<rparr> =
     (Respond \<lparr>status = 400,
               payload = JsonBody (JObject
                 [(''jsonrpc'', JString ''2.0''),
                  (''error'', JObject
                     [(''code'', JNumber (- 32000)),
                      (''message'', JString ''Bad Request: No valid session ID provided'')]),
                  (''id'', JNull)])\<rparr>, example_state)"
proof -
  have h: "\<not> method_is_initialize tools_call_body"
    by (simp add: tools_call_body_def)
  show ?thesis
    using h missing_session_is_rejected[of "\<lparr>mcp_session_id = None, body = tools_call_body\<rparr>"
        method_is_initialize example_state]
    by simp
qed

text \<open>
  C6.  GET and DELETE are to answer a header that names no registry entry with status 400
  and the text \<open>Invalid or missing session ID\<close>.  For a header that names
  a member inherited from \<open>Object.prototype\<close> the test \<open>!transports[sessionId]\<close> is
  false although the registry has no such entry: right after startup, with the registry
  empty, a GET or DELETE with the header \<open>constructor\<close> is not answered with 400; the
  handler takes the inherited member for a transport and the call of its
  \<open>handleRequest\<close> throws.
\<close>

theorem inherited_key_is_not_rejected:
  "app isInitializeRequest GET init_server
       \<lparr>mcp_session_id = Some ''constructor'', body = b\<rparr> =
     (Threw TypeError, init_server) \<and>
   app isInitializeRequest DELETE init_server
       \<lparr>mcp_session_id = Some ''constructor'', body = b\<rparr> =
     (Threw TypeError, init_server)"
  by (simp add: app_def handleSessionRequest_def get_property_def init_server_def
      object_prototype_keys_def)

text \<open>
  The same, for one body and one instance of the SDK's predicate.
\<close>

theorem inherited_key_is_not_rejected_witness:
  "app method_is_initialize GET init_server
       \<lparr>mcp_session_id = Some ''constructor'', body = JNull\<rparr> =
     (Threw TypeError, init_server) \<and>
   app method_is_initialize DELETE init_server
       \<lparr>mcp_session_id = Some ''constructor'', body = JNull\<rparr> =
     (Threw TypeError, init_server)"
  by (rule inherited_key_is_not_rejected)

text \<open>
  C9.  A POST request whose session id header is not empty, is not a key of the registry
  and is not the name of an inherited member is answered with the fixed 400 JSON-RPC error,
  whatever its body, an initialize request included; the state stays as it was, so no
  transport is constructed.
\<close>

theorem unknown_session_post_is_rejected:
  assumes "mcp_session_id req = Some sid"
    and "sid \<noteq> []"
    and "transports s sid = None"
    and "sid \<notin> set object_prototype_keys"
  shows "app isInitializeRequest POST s req =
     (Respond \<lparr>status = 400,
               payload = JsonBody (JObject
                 [(''jsonrpc'', JString ''2.0''),
                  (''error'', JObject
                     [(''code'', JNumber (- 32000)),
                      (''message'', JString ''Bad Request: No valid session ID provided'')]),
                  (''id'', JNull)])\<rparr>, s)"
  using unknown_session_post[OF assms(3,2,4,1)] by (simp add: app_def)

text \<open>
  An initialize request under an unknown session id, sent while another session exists.
\<close>

theorem unknown_session_post_is_rejected_witness:
  "method_is_initialize initialize_body \<and>
   transports example_state ''no-such-session'' = None \<and>
   ''no-such-session'' \<notin> set object_prototype_keys \<and>
   app method_is_initialize POST example_state
       \<lparr>mcp_session_id = Some ''no-such-session'', body = initialize_body\<rparr> =
     (Respond \<lparr>status = 400,
               payload = JsonBody (JObject
                 [(''jsonrpc'', JString ''2.0''),
                  (''error'', JObject
                     [(''code'', JNumber (- 32000)),
                      (''message'', JString ''Bad Request: No valid session ID provided'')]),
                  (''id'', JNull)])\<rparr>, example_state)"
proof -
  have h1: "mcp_session_id \<lparr>mcp_session_id = Some ''no-such-session'', body = initialize_body\<rparr> =
     Some ''no-such-session''"
    by simp
  have h2: "''no-such-session'' \<noteq> []" by simp
  have h3: "transports example_state ''no-such-session'' = None"
    by (simp add: example_state_def example_sid_def)
  have h4: "''no-such-session'' \<notin> set object_prototype_keys"
    by (simp add: object_prototype_keys_def)
  have h5: "method_is_initialize initialize_body"
    by (simp add: initialize_body_def)
  show ?thesis
    using h3 h4 h5 unknown_session_post_is_rejected[OF h1 h2 h3 h4, of method_is_initialize]
    by simp
qed

text \<open>
  The header may be present and empty.  The empty string is falsy, so the handler takes
  the request for one without a session id: its value is no key of the registry, and yet
  with an initialize body the request starts a handshake instead of being rejected.
\<close>

theorem empty_session_header_counterexample:
  "method_is_initialize initialize_body \<and>
   transports init_server [] = None \<and>
   app method_is_initialize POST init_server
       \<lparr>mcp_session_id = Some [], body = initialize_body\<rparr> =
     (HandleRequest 0 (Some initialize_body),
      init_server\<lparr>servers := [[''get_current_time'']]\<rparr>)"
  by (simp add: app_def post_mcp_def init_server_def initialize_body_def)

text \<open>
  C10.  Whenever a handler answers by itself (the only answers it gives are the two 400
  errors), the state after the request is the state before it.
\<close>

theorem rejected_request_keeps_state:
  assumes "fst (app isInitializeRequest v s req) = Respond r"
  shows "snd (app isInitializeRequest v s req) = s \<and>
         (r = \<lparr>status = 400, payload = TextBody ''Invalid or missing session ID''\<rparr> \<or>
          r = \<lparr>status = 400,
               payload = JsonBody (JObject
                 [(''jsonrpc'', JString ''2.0''),
                  (''error'', JObject
                     [(''code'', JNumber (- 32000)),
                      (''message'', JString ''Bad Request: No valid session ID provided'')]),
                  (''id'', JNull)])\<rparr>)"
proof -
  have c: "call_handleRequest x a \<noteq> Respond r" for x and a :: "'a option"
    by (cases x) simp_all
  show ?thesis
    using assms c
    by (cases v) (auto simp: app_def post_mcp_def handleSessionRequest_def Let_def split: if_splits)
qed

text \<open>
  A GET under an unknown session id, sent while another session exists.
\<close>

theorem rejected_request_keeps_state_witness:
  "fst (app method_is_initialize GET example_state
          \<lparr>mcp_session_id = Some ''no-such-session'', body = JNull\<rparr>) =
     Respond \<lparr>status = 400, payload = TextBody ''Invalid or missing session ID''\<rparr> \<and>
   snd (app method_is_initialize GET example_state
          \<lparr>mcp_session_id = Some ''no-such-session'', body = JNull\<rparr>) = example_state"
proof -
  have h: "fst (app method_is_initialize GET example_state
          \<lparr>mcp_session_id = Some ''no-such-session'', body = JNull\<rparr>) =
     Respond \<lparr>status = 400, payload = TextBody ''Invalid or missing session ID''\<rparr>"
    by (simp add: app_def handleSessionRequest_def get_property_def example_state_def
        example_sid_def object_prototype_keys_def)
  show ?thesis
    using h rejected_request_keeps_state[OF h] by simp
qed

section \<open>The life of a session\<close>

text \<open>
  C3.  Every entry of the registry goes back to a handshake: if the registry of a reachable
  state maps \<open>sid\<close> to transport \<open>t\<close>, then the trace contains a POST request without a
  session id and with an initialize body, this request constructed \<open>t\<close> and handed the
  request to it, and later the initialisation callback of \<open>t\<close> stored the entry under the
  id the generator produced.  No request handler writes to the registry itself.
\<close>

theorem session_only_from_handshake:
  assumes "run isInitializeRequest init_server evs = Some s"
    and "transports s sid = Some t"
  shows "(\<exists>pre req mid post s0.
           evs = pre @ Request POST req # mid @ SessionInitialized t sid # post \<and>
           (mcp_session_id req = None \<or> mcp_session_id req = Some []) \<and>
           isInitializeRequest (body req) \<and>
           run isInitializeRequest init_server pre = Some s0 \<and>
           app isInitializeRequest POST s0 req =
             (HandleRequest t (Some (body req)),
              s0\<lparr>servers := servers s0 @ [[''get_current_time'']]\<rparr>) \<and>
           t = length (servers s0) \<and> is_uuid sid) \<and>
         (\<forall>v r. transports (snd (app isInitializeRequest v s r)) = transports s)"
proof -
  from entry_comes_from_callback[OF assms] obtain pre1 post s1 where
    a: "evs = pre1 @ SessionInitialized t sid # post"
       "run isInitializeRequest init_server pre1 = Some s1"
       "t < length (servers s1)" "is_uuid sid"
    by blast
  from transport_comes_from_handshake[OF a(2,3)] obtain pre req mid s0 where
    b: "pre1 = pre @ Request POST req # mid"
       "is_handshake isInitializeRequest (Request POST req)"
       "run isInitializeRequest init_server pre = Some s0" "t = length (servers s0)"
    by blast
  have "evs = pre @ Request POST req # mid @ SessionInitialized t sid # post"
    using a(1) b(1) by simp
  moreover have "(mcp_session_id req = None \<or> mcp_session_id req = Some []) \<and>
      isInitializeRequest (body req)"
    using b(2) by (cases "mcp_session_id req") simp_all
  moreover have "app isInitializeRequest POST s0 req =
             (HandleRequest t (Some (body req)),
              s0\<lparr>servers := servers s0 @ [[''get_current_time'']]\<rparr>)"
    using handshake_outcome[OF b(2)] b(4) by simp
  ultimately have first: "\<exists>pre req mid post s0.
           evs = pre @ Request POST req # mid @ SessionInitialized t sid # post \<and>
           (mcp_session_id req = None \<or> mcp_session_id req = Some []) \<and>
           isInitializeRequest (body req) \<and>
           run isInitializeRequest init_server pre = Some s0 \<and>
           app isInitializeRequest POST s0 req =
             (HandleRequest t (Some (body req)),
              s0\<lparr>servers := servers s0 @ [[''get_current_time'']]\<rparr>) \<and>
           t = length (servers s0) \<and> is_uuid sid"
    using b(3,4) a(4) by blast
  have second: "\<forall>v r. transports (snd (app isInitializeRequest v s r)) = transports s"
    by (simp add: request_state)
  from first second show ?thesis by (rule conjI)
qed

text \<open>
  The example trace.
\<close>

theorem session_only_from_handshake_witness:
  "run method_is_initialize init_server example_trace = Some example_state \<and>
   transports example_state example_sid = Some 0 \<and>
   (\<exists>pre req mid post s0.
      example_trace = pre @ Request POST req # mid @ SessionInitialized 0 example_sid # post \<and>
      (mcp_session_id req = None \<or> mcp_session_id req = Some []) \<and>
      method_is_initialize (body req) \<and>
      run method_is_initialize init_server pre = Some s0 \<and>
      app method_is_initialize POST s0 req =
        (HandleRequest 0 (Some (body req)),
         s0\<lparr>servers := servers s0 @ [[''get_current_time'']]\<rparr>) \<and>
      0 = length (servers s0) \<and> is_uuid example_sid) \<and>
   (\<forall>v r. transports (snd (app method_is_initialize v example_state r)) =
      transports example_state)"
  using example_run example_entry
    session_only_from_handshake[OF example_run example_entry]
  by simp

text \<open>
  C4.  Let transport \<open>t\<close> carry the session id \<open>sid\<close> in a reachable state.  After its
  close callback ran, \<open>sid\<close> is no key of the registry, and this stays so for as long as
  the generator does not produce \<open>sid\<close> a second time; every POST with this id is then
  answered with the 400 JSON-RPC error and every GET or DELETE with the 400 text, none is
  routed.
\<close>

theorem closed_session_is_unknown:
  assumes "run isInitializeRequest init_server evs = Some s"
    and "sessionId s t = Some sid"
    and "step isInitializeRequest s (Closed t) = Some s1"
    and "run isInitializeRequest s1 later = Some s2"
    and "\<forall>t'. SessionInitialized t' sid \<notin> set later"
    and "mcp_session_id req = Some sid"
  shows "transports s1 sid = None \<and> transports s2 sid = None \<and>
     app isInitializeRequest POST s2 req =
       (Respond \<lparr>status = 400,
                 payload = JsonBody (JObject
                   [(''jsonrpc'', JString ''2.0''),
                    (''error'', JObject
                       [(''code'', JNumber (- 32000)),
                        (''message'', JString ''Bad Request: No valid session ID provided'')]),
                    (''id'', JNull)])\<rparr>, s2) \<and>
     app isInitializeRequest GET s2 req =
       (Respond \<lparr>status = 400, payload = TextBody ''Invalid or missing session ID''\<rparr>, s2) \<and>
     app isInitializeRequest DELETE s2 req =
       (Respond \<lparr>status = 400, payload = TextBody ''Invalid or missing session ID''\<rparr>, s2)"
proof -
  have u: "is_uuid sid" using reachable_keys_uuid(2)[OF assms(1,2)] .
  have ne: "sid \<noteq> []" using u by (rule is_uuid_nonempty)
  have ni: "sid \<notin> set object_prototype_keys" using u by (rule is_uuid_not_inherited)
  have c1: "transports s1 sid = None"
    using assms(2,3) ne by (auto simp: onclose_def split: if_splits)
  have c2: "transports s2 sid = None"
    by (rule run_stays_unknown[OF assms(4) c1 assms(5)])
  show ?thesis
    using c1 c2
    by (simp add: app_def unknown_session_post[OF c2 ne ni assms(6)]
        unknown_session_get[OF c2 ni assms(6)])
qed

text \<open>
  The session of the example is closed; another request follows; then the old id is used.
\<close>

theorem closed_session_is_unknown_witness:
  "run method_is_initialize init_server example_trace = Some example_state \<and>
   sessionId example_state 0 = Some example_sid \<and>
   step method_is_initialize example_state (Closed 0) = Some (onclose 0 example_state) \<and>
   run method_is_initialize (onclose 0 example_state)
     [Request POST \<lparr>mcp_session_id = None, body = tools_call_body\<rparr>] =
     Some (onclose 0 example_state) \<and>
   transports (onclose 0 example_state) example_sid = None \<and>
   app method_is_initialize POST (onclose 0 example_state)
       \<lparr>mcp_session_id = Some example_sid, body = initialize_body\<rparr> =
     (Respond \<lparr>status = 400,
               payload = JsonBody (JObject
                 [(''jsonrpc'', JString ''2.0''),
                  (''error'', JObject
                     [(''code'', JNumber (- 32000)),
                      (''message'', JString ''Bad Request: No valid session ID provided'')]),
                  (''id'', JNull)])\<rparr>, onclose 0 example_state) \<and>
   app method_is_initialize GET (onclose 0 example_state)
       \<lparr>mcp_session_id = Some example_sid, body = initialize_body\<rparr> =
     (Respond \<lparr>status = 400, payload = TextBody ''Invalid or missing session ID''\<rparr>,
      onclose 0 example_state) \<and>
   app method_is_initialize DELETE (onclose 0 example_state)
       \<lparr>mcp_session_id = Some example_sid, body = initialize_body\<rparr> =
     (Respond \<lparr>status = 400, payload = TextBody ''Invalid or missing session ID''\<rparr>,
      onclose 0 example_state)"
proof -
  have h2: "sessionId example_state 0 = Some example_sid"
    by (simp add: example_state_def)
  have h3: "step method_is_initialize example_state (Closed 0) = Some (onclose 0 example_state)"
    by (simp add: example_state_def)
  have h4: "run method_is_initialize (onclose 0 example_state)
     [Request POST \<lparr>mcp_session_id = None, body = tools_call_body\<rparr>] =
     Some (onclose 0 example_state)"
    by (simp add: app_def post_mcp_def tools_call_body_def)
  have h5: "\<forall>t'. SessionInitialized t' example_sid \<notin>
     set [Request POST \<lparr>mcp_session_id = None, body = tools_call_body\<rparr>]"
    by simp
  have h6: "mcp_session_id \<lparr>mcp_session_id = Some example_sid, body = initialize_body\<rparr> =
     Some example_sid"
    by simp
  show ?thesis
    using example_run h2 h3 h4 closed_session_is_unknown[OF example_run h2 h3 h4 h5 h6]
    by simp
qed

text \<open>
  C5.  Registration is the assignment \<open>transports[sid] = transport\<close>.  It cannot fail
  and it does not look at what is stored: afterwards \<open>sid\<close> maps to the new transport,
  whether or not it mapped to another one before, and no other entry and nothing else of the
  state has changed.
\<close>

theorem register_overwrites:
  assumes "is_uuid sid"
  shows "transports (onsessioninitialized t sid s) k =
           (if k = sid then Some t else transports s k) \<and>
         get_property (transports (onsessioninitialized t sid s)) (Some sid) = Transport t \<and>
         sessionId (onsessioninitialized t sid s) = sessionId s \<and>
         servers (onsessioninitialized t sid s) = servers s"
  by (simp add: onsessioninitialized_def get_property_def)

text \<open>
  Registering a second transport under the id of the example session.
\<close>

theorem register_overwrites_witness:
  "is_uuid example_sid \<and>
   transports (onsessioninitialized 1 example_sid example_state) example_sid = Some 1 \<and>
   get_property (transports (onsessioninitialized 1 example_sid example_state))
     (Some example_sid) = Transport 1 \<and>
   sessionId (onsessioninitialized 1 example_sid example_state) = sessionId example_state \<and>
   servers (onsessioninitialized 1 example_sid example_state) = servers example_state"
  using example_sid_uuid
    register_overwrites[OF example_sid_uuid, of 1 example_state example_sid]
  by simp

text \<open>
  The id was present and mapped to transport 0; registration went through and replaced it.
\<close>

theorem register_fails_if_present_counterexample:
  "transports example_state example_sid = Some 0 \<and>
   transports (onsessioninitialized 1 example_sid example_state) example_sid = Some 1"
  by (simp add: example_state_def onsessioninitialized_def)

section \<open>Tools\<close>

text \<open>
  C7.  Tools are registered per session, not at startup: every handshake request constructs
  a protocol server of its own and registers the single tool \<open>get_current_time\<close> on it.
  No other event registers a tool, and the tools of a server that exists are never changed:
  over any sequence of events the list of servers grows by one such server per handshake
  request and is otherwise untouched.
\<close>

theorem tools_registered_per_handshake:
  assumes "run isInitializeRequest s evs = Some s'"
  shows "servers s' =
     servers s @
     replicate (length (filter (is_handshake isInitializeRequest) evs)) [''get_current_time'']"
  using assms
proof (induction evs arbitrary: s)
  case Nil
  then show ?case by simp
next
  case (Cons e es)
  from Cons.prems obtain s1 where
    s1: "step isInitializeRequest s e = Some s1" "run isInitializeRequest s1 es = Some s'"
    by (auto split: option.splits)
  show ?case
    using Cons.IH[OF s1(2)] step_servers[OF s1(1)] by simp
qed

text \<open>
  Two handshakes with a rejected GET in between.
\<close>

theorem tools_registered_per_handshake_witness:
  "run method_is_initialize init_server
     [Request POST \<lparr>mcp_session_id = None, body = initialize_body\<rparr>,
      Request GET \<lparr>mcp_session_id = None, body = JNull\<rparr>,
      Request POST \<lparr>mcp_session_id = None, body = initialize_body\<rparr>] =
     Some (init_server\<lparr>servers := [[''get_current_time''], [''get_current_time'']]\<rparr>) \<and>
   servers (init_server\<lparr>servers := [[''get_current_time''], [''get_current_time'']]\<rparr>) =
     servers init_server @ replicate 2 [''get_current_time'']"
proof -
  have h: "run method_is_initialize init_server
     [Request POST \<lparr>mcp_session_id = None, body = initialize_body\<rparr>,
      Request GET \<lparr>mcp_session_id = None, body = JNull\<rparr>,
      Request POST \<lparr>mcp_session_id = None, body = initialize_body\<rparr>] =
     Some (init_server\<lparr>servers := [[''get_current_time''], [''get_current_time'']]\<rparr>)"
    by (simp add: app_def post_mcp_def handleSessionRequest_def init_server_def
        initialize_body_def)
  have n: "length (filter (is_handshake method_is_initialize)
     [Request POST \<lparr>mcp_session_id = None, body = initialize_body\<rparr>,
      Request GET \<lparr>mcp_session_id = None, body = JNull\<rparr>,
      Request POST \<lparr>mcp_session_id = None, body = initialize_body\<rparr>]) = 2"
    by (simp add: initialize_body_def)
  show ?thesis
    using h tools_registered_per_handshake[OF h] unfolding n by simp
qed

text \<open>
  At startup no tool is registered; after two handshakes the name has been registered twice.
\<close>

theorem tool_registered_once_at_startup_counterexample:
  "tool_registrations init_server = [] \<and>
   map_option tool_registrations
     (run method_is_initialize init_server
        [Request POST \<lparr>mcp_session_id = None, body = initialize_body\<rparr>,
         Request POST \<lparr>mcp_session_id = None, body = initialize_body\<rparr>]) =
     Some [''get_current_time'', ''get_current_time'']"
  by (simp add: tool_registrations_def app_def post_mcp_def init_server_def initialize_body_def)



end
